theory Spec2Isabelle
  imports Complex_Main
begin

section \<open>JavaScript values\<close>

text \<open>
  Both API routes and the page component handle JSON data: request bodies, the completion
  returned by the text-generation service, the suggestion sent back to the page. A value is one
  of the six JSON kinds. A string is a list of characters with code points below 256. A number
  is kept as its JSON lexeme: the repository never computes with numbers, it only tests them
  for truthiness, compares them and prints them. The rounding to a double is not modelled: two
  lexemes of one number count as two numbers, and a lexeme is printed as it was read.
  \<open>undefined\<close> is not a JSON value; a possibly undefined value is a \<open>js option\<close>,
  with \<open>None\<close> for \<open>undefined\<close>.
\<close>

datatype js =
    JNull
  | JBool bool
  | JNum string
  | JStr string
  | JArr "js list"
  | JObj "(string \<times> js) list"

text \<open>
  The exceptions: the two the language throws here, a rejected \<open>fetch\<close> or body read, and
  the \<open>Error\<close> a route throws itself on a response that is not ok, with the status.
\<close>

datatype js_error = TypeError | SyntaxError | FetchFailed | ApiError nat

text \<open>A number is falsy when it is zero: no digit of its mantissa differs from \<open>0\<close>.\<close>

definition num_is_zero :: "string \<Rightarrow> bool" where
  "num_is_zero l =
     list_all (\<lambda>c. c \<notin> set ''123456789'')
       (takeWhile (\<lambda>c. c \<noteq> CHR ''e'' \<and> c \<noteq> CHR ''E'') l)"

text \<open>JavaScript's ToBoolean, as applied by \<open>!x\<close> and \<open>x || y\<close>.\<close>

fun truthy :: "js option \<Rightarrow> bool" where
  "truthy None = False"
| "truthy (Some JNull) = False"
| "truthy (Some (JBool b)) = b"
| "truthy (Some (JNum l)) = (\<not> num_is_zero l)"
| "truthy (Some (JStr s)) = (s \<noteq> [])"
| "truthy (Some (JArr xs)) = True"
| "truthy (Some (JObj kvs)) = True"

text \<open>
  SameValueZero, the comparison of \<open>Set\<close>. Primitives are compared by value. Arrays and
  objects are compared by reference, and every array or object the program meets is a fresh
  node of a just parsed JSON text, so two occurrences are never the same reference.
\<close>

fun same_value_zero :: "js \<Rightarrow> js \<Rightarrow> bool" where
  "same_value_zero JNull JNull = True"
| "same_value_zero (JBool a) (JBool b) = (a = b)"
| "same_value_zero (JNum a) (JNum b) = (a = b)"
| "same_value_zero (JStr a) (JStr b) = (a = b)"
| "same_value_zero _ _ = False"

subsection \<open>The \<open>Set\<close> of selected characteristics\<close>

text \<open>
  A JavaScript \<open>Set\<close> iterates in insertion order, and \<open>Array.from\<close> reads it in that
  order, so a set is the list of its members in insertion order.
\<close>

type_synonym js_set = "js list"

definition set_has :: "js_set \<Rightarrow> js \<Rightarrow> bool" where
  "set_has s v = list_ex (\<lambda>x. same_value_zero x v) s"

definition set_add :: "js_set \<Rightarrow> js \<Rightarrow> js_set" where
  "set_add s v = (if set_has s v then s else s @ [v])"

definition set_delete :: "js_set \<Rightarrow> js \<Rightarrow> js_set" where
  "set_delete s v = filter (\<lambda>x. \<not> same_value_zero x v) s"



section \<open>\<open>JSON.parse\<close>\<close>

text \<open>
  The routes call \<open>JSON.parse\<close> and \<open>response.json()\<close> of the runtime. The model is a
  lexer followed by a push-down recogniser of the JSON grammar; \<open>None\<close> is the
  \<open>SyntaxError\<close> the runtime throws. A four-digit \<open>u\<close> escape is decoded when its code unit is
  below 256, the range of the characters of this model, and refused above.
\<close>

datatype token =
    TLBrace | TRBrace | TLBrack | TRBrack | TColon | TComma
  | TString string | TNumber string | TTrue | TFalse | TNull

definition is_ws :: "char \<Rightarrow> bool" where
  "is_ws c = (c = CHR '' '' \<or> c = CHR 0x09 \<or> c = CHR 0x0A \<or> c = CHR 0x0D)"

definition is_digit :: "char \<Rightarrow> bool" where
  "is_digit c = (c \<in> set ''0123456789'')"

definition is_num_char :: "char \<Rightarrow> bool" where
  "is_num_char c = (is_digit c \<or> c \<in> set ''+-.eE'')"

definition hex_val :: "char \<Rightarrow> nat option" where
  "hex_val c =
     (if is_digit c then Some (of_char c - 48)
      else if c \<in> set ''abcdef'' then Some (of_char c - 87)
      else if c \<in> set ''ABCDEF'' then Some (of_char c - 55)
      else None)"

definition unescape :: "char \<Rightarrow> char option" where
  "unescape e =
     (if e = CHR 0x22 then Some (CHR 0x22)
      else if e = CHR 0x5C then Some (CHR 0x5C)
      else if e = CHR ''/'' then Some (CHR ''/'')
      else if e = CHR ''b'' then Some (CHR 0x08)
      else if e = CHR ''f'' then Some (CHR 0x0C)
      else if e = CHR ''n'' then Some (CHR 0x0A)
      else if e = CHR ''r'' then Some (CHR 0x0D)
      else if e = CHR ''t'' then Some (CHR 0x09)
      else None)"

fun digits1 :: "string \<Rightarrow> string option" where
  "digits1 [] = None"
| "digits1 (c # cs) = (if is_digit c then Some (dropWhile is_digit cs) else None)"

definition num_exp :: "string \<Rightarrow> bool" where
  "num_exp s =
     (case s of
        [] \<Rightarrow> True
      | c # cs \<Rightarrow>
          (c = CHR ''e'' \<or> c = CHR ''E'') \<and>
          (case cs of
             [] \<Rightarrow> False
           | d # ds \<Rightarrow> digits1 (if d = CHR ''+'' \<or> d = CHR ''-'' then ds else cs) = Some []))"

definition num_frac :: "string \<Rightarrow> bool" where
  "num_frac s =
     (case s of
        [] \<Rightarrow> True
      | c # cs \<Rightarrow>
          (if c = CHR ''.'' then (case digits1 cs of None \<Rightarrow> False | Some r \<Rightarrow> num_exp r)
           else num_exp s))"

definition num_int :: "string \<Rightarrow> bool" where
  "num_int s =
     (case s of
        [] \<Rightarrow> False
      | c # cs \<Rightarrow>
          (if c = CHR ''0'' then num_frac cs
           else is_digit c \<and> num_frac (dropWhile is_digit cs)))"

definition valid_number :: "string \<Rightarrow> bool" where
  "valid_number s = (case s of [] \<Rightarrow> False | c # cs \<Rightarrow> if c = CHR ''-'' then num_int cs else num_int s)"

definition tcons :: "token \<Rightarrow> token list option \<Rightarrow> token list option" where
  "tcons t r = map_option (Cons t) r"

fun lex :: "string \<Rightarrow> token list option"
and lex_string :: "string \<Rightarrow> string \<Rightarrow> token list option"
and lex_number :: "string \<Rightarrow> string \<Rightarrow> token list option"
where
  "lex [] = Some []"
| "lex (c # cs) =
     (if is_ws c then lex cs
      else if c = CHR ''{'' then tcons TLBrace (lex cs)
      else if c = CHR ''}'' then tcons TRBrace (lex cs)
      else if c = CHR ''['' then tcons TLBrack (lex cs)
      else if c = CHR '']'' then tcons TRBrack (lex cs)
      else if c = CHR '':'' then tcons TColon (lex cs)
      else if c = CHR '','' then tcons TComma (lex cs)
      else if c = CHR 0x22 then lex_string [] cs
      else if c = CHR ''-'' \<or> is_digit c then lex_number [c] cs
      else if c = CHR ''t'' then
        (case cs of c1 # c2 # c3 # r \<Rightarrow>
           if [c1, c2, c3] = ''rue'' then tcons TTrue (lex r) else None
         | _ \<Rightarrow> None)
      else if c = CHR ''f'' then
        (case cs of c1 # c2 # c3 # c4 # r \<Rightarrow>
           if [c1, c2, c3, c4] = ''alse'' then tcons TFalse (lex r) else None
         | _ \<Rightarrow> None)
      else if c = CHR ''n'' then
        (case cs of c1 # c2 # c3 # r \<Rightarrow>
           if [c1, c2, c3] = ''ull'' then tcons TNull (lex r) else None
         | _ \<Rightarrow> None)
      else None)"
| "lex_string acc [] = None"
| "lex_string acc (c # cs) =
     (if c = CHR 0x22 then tcons (TString (rev acc)) (lex cs)
      else if c = CHR 0x5C then
        (case cs of
           [] \<Rightarrow> None
         | e # r \<Rightarrow>
             if e = CHR ''u'' then
               (case r of
                  h1 # h2 # h3 # h4 # r' \<Rightarrow>
                    (case (hex_val h1, hex_val h2, hex_val h3, hex_val h4) of
                       (Some a, Some b, Some c, Some d) \<Rightarrow>
                         (if a = 0 \<and> b = 0 then lex_string (char_of (16 * c + d) # acc) r'
                          else None)
                     | _ \<Rightarrow> None)
                | _ \<Rightarrow> None)
             else (case unescape e of None \<Rightarrow> None | Some x \<Rightarrow> lex_string (x # acc) r))
      else if (of_char c :: nat) < 32 then None
      else lex_string (c # acc) cs)"
| "lex_number acc [] = (if valid_number (rev acc) then Some [TNumber (rev acc)] else None)"
| "lex_number acc (c # cs) =
     (if is_num_char c then lex_number (c # acc) cs
      else if valid_number (rev acc) then tcons (TNumber (rev acc)) (lex (c # cs))
      else None)"

text \<open>
  The recogniser reads one token at a time. Its stack holds the arrays and objects that are
  still open: an array with its elements so far, latest first, an object with its members so
  far and the key whose value is being read. A repeated key keeps its place and takes the
  later value, as \<open>JSON.parse\<close> does.
\<close>

datatype frame = InArr "js list" | InObj "(string \<times> js) list" string

datatype mode = Val | ValOrClose | KeyOrClose | Key | Colon | CommaOrClose | Done js

fun obj_put :: "string \<Rightarrow> js \<Rightarrow> (string \<times> js) list \<Rightarrow> (string \<times> js) list" where
  "obj_put k v [] = [(k, v)]"
| "obj_put k v (p # ps) = (if fst p = k then (k, v) # ps else p # obj_put k v ps)"

fun push_value :: "js \<Rightarrow> frame list \<Rightarrow> frame list \<times> mode" where
  "push_value v [] = ([], Done v)"
| "push_value v (InArr es # st) = (InArr (v # es) # st, CommaOrClose)"
| "push_value v (InObj ms k # st) = (InObj (obj_put k v ms) k # st, CommaOrClose)"

fun start_value :: "token \<Rightarrow> frame list \<Rightarrow> (frame list \<times> mode) option" where
  "start_value (TString s) st = Some (push_value (JStr s) st)"
| "start_value (TNumber l) st = Some (push_value (JNum l) st)"
| "start_value TTrue st = Some (push_value (JBool True) st)"
| "start_value TFalse st = Some (push_value (JBool False) st)"
| "start_value TNull st = Some (push_value JNull st)"
| "start_value TLBrack st = Some (InArr [] # st, ValOrClose)"
| "start_value TLBrace st = Some (InObj [] [] # st, KeyOrClose)"
| "start_value _ st = None"

fun close_array :: "frame list \<Rightarrow> (frame list \<times> mode) option" where
  "close_array (InArr es # st) = Some (push_value (JArr (rev es)) st)"
| "close_array _ = None"

fun close_object :: "frame list \<Rightarrow> (frame list \<times> mode) option" where
  "close_object (InObj ms k # st) = Some (push_value (JObj ms) st)"
| "close_object _ = None"

fun set_key :: "token \<Rightarrow> frame list \<Rightarrow> (frame list \<times> mode) option" where
  "set_key (TString k) (InObj ms _ # st) = Some (InObj ms k # st, Colon)"
| "set_key _ _ = None"

fun after_comma :: "frame list \<Rightarrow> (frame list \<times> mode) option" where
  "after_comma (InArr es # st) = Some (InArr es # st, Val)"
| "after_comma (InObj ms k # st) = Some (InObj ms k # st, Key)"
| "after_comma [] = None"

fun step :: "token \<Rightarrow> frame list \<times> mode \<Rightarrow> (frame list \<times> mode) option" where
  "step t (st, Val) = start_value t st"
| "step t (st, ValOrClose) = (if t = TRBrack then close_array st else start_value t st)"
| "step t (st, KeyOrClose) = (if t = TRBrace then close_object st else set_key t st)"
| "step t (st, Key) = set_key t st"
| "step t (st, Colon) = (if t = TColon then Some (st, Val) else None)"
| "step t (st, CommaOrClose) =
     (if t = TComma then after_comma st
      else if t = TRBrack then close_array st
      else if t = TRBrace then close_object st
      else None)"
| "step t (st, Done v) = None"

fun run :: "token list \<Rightarrow> frame list \<times> mode \<Rightarrow> js option" where
  "run [] (st, m) = (case m of Done v \<Rightarrow> Some v | _ \<Rightarrow> None)"
| "run (t # ts) s = (case step t s of None \<Rightarrow> None | Some s' \<Rightarrow> run ts s')"

definition JSON_parse :: "string \<Rightarrow> js option" where
  "JSON_parse text = (case lex text of None \<Rightarrow> None | Some ts \<Rightarrow> run ts ([], Val))"

section \<open>Operations of the language\<close>

text \<open>
  A failing step returns \<open>Inl\<close> with the exception; \<open>and_then\<close> runs the next step after
  a step that returned normally.
\<close>

definition and_then :: "'e + 'a \<Rightarrow> ('a \<Rightarrow> 'e + 'b) \<Rightarrow> 'e + 'b" where
  "and_then r f = (case r of Inl e \<Rightarrow> Inl e | Inr x \<Rightarrow> f x)"

text \<open>
  Reading a property \<open>v.k\<close>. Reading from \<open>undefined\<close> or \<open>null\<close> throws; an object
  gives its member, or \<open>undefined\<close>; every other value gives \<open>undefined\<close>. The keys the
  program reads (\<open>newsContent\<close>, \<open>selectedTraits\<close>, \<open>choices\<close>, \<open>message\<close>,
  \<open>content\<close>, \<open>report\<close> and the four category names) are defined on no prototype.
\<close>

fun js_prop :: "js option \<Rightarrow> string \<Rightarrow> js_error + js option" where
  "js_prop None k = Inl TypeError"
| "js_prop (Some JNull) k = Inl TypeError"
| "js_prop (Some (JObj kvs)) k = Inr (map_of kvs k)"
| "js_prop (Some _) k = Inr None"

text \<open>Reading \<open>v[0]\<close>: the first element of an array, the first character of a string.\<close>

fun js_index0 :: "js option \<Rightarrow> js_error + js option" where
  "js_index0 None = Inl TypeError"
| "js_index0 (Some JNull) = Inl TypeError"
| "js_index0 (Some (JArr xs)) = Inr (case xs of [] \<Rightarrow> None | x # _ \<Rightarrow> Some x)"
| "js_index0 (Some (JStr s)) = Inr (case s of [] \<Rightarrow> None | c # _ \<Rightarrow> Some (JStr [c]))"
| "js_index0 (Some (JObj kvs)) = Inr (map_of kvs ''0'')"
| "js_index0 (Some _) = Inr None"

text \<open>
  ToString, as a template literal and \<open>JSON.parse\<close> apply it, and \<open>Array.prototype.join\<close>.
  An array prints as its elements joined by commas, with \<open>null\<close> printed as the empty
  string. An object prints as \<open>[object Object]\<close>, unless it has a member \<open>toString\<close>
  of its own: that member is no function, and the conversion throws.
\<close>

fun to_string :: "js \<Rightarrow> js_error + string"
and join :: "string \<Rightarrow> js list \<Rightarrow> js_error + string"
where
  "to_string JNull = Inr ''null''"
| "to_string (JBool b) = Inr (if b then ''true'' else ''false'')"
| "to_string (JNum l) = Inr l"
| "to_string (JStr s) = Inr s"
| "to_string (JArr xs) = join '','' xs"
| "to_string (JObj kvs) =
     (if ''toString'' \<in> fst ` set kvs then Inl TypeError else Inr ''[object Object]'')"
| "join sep [] = Inr []"
| "join sep (x # xs) =
     (case (if x = JNull then Inr [] else to_string x) of
        Inl e \<Rightarrow> Inl e
      | Inr s \<Rightarrow>
          (case xs of
             [] \<Rightarrow> Inr s
           | _ # _ \<Rightarrow> (case join sep xs of Inl e \<Rightarrow> Inl e | Inr r \<Rightarrow> Inr (s @ sep @ r))))"

definition to_string_opt :: "js option \<Rightarrow> js_error + string" where
  "to_string_opt v = (case v of None \<Rightarrow> Inr ''undefined'' | Some x \<Rightarrow> to_string x)"

text \<open>The call \<open>v.join(sep)\<close>: only an array has the method.\<close>

definition call_join :: "js option \<Rightarrow> string \<Rightarrow> js_error + string" where
  "call_join v sep = (case v of Some (JArr xs) \<Rightarrow> join sep xs | _ \<Rightarrow> Inl TypeError)"





section \<open>The fixed taxonomy\<close>

text \<open>\<open>fixedOptions\<close> of the auto-select route, in the order the object literal lists it.\<close>

definition fixedOptions :: "(string \<times> string list) list" where
  "fixedOptions =
    [(''ages'', [''18-'', ''18-24'', ''24-30'', ''30-36'', ''36-42'', ''42-48'', ''48-54'',
                 ''54-60'', ''60-66'', ''66-72'', ''72+'']),
     (''genders'', [''male'', ''female'', ''non-binary'']),
     (''personality_traits'', [''analytical'', ''empathetic'', ''adventurous'',
                 ''conscientious'', ''spontaneous'', ''pragmatic'', ''idealistic'',
                 ''assertive'', ''diplomatic'', ''introspective'']),
     (''interests'', [''technology'', ''music'', ''visual arts'', ''sports'', ''literature'',
                 ''finance'', ''gaming'', ''travel'', ''culinary'', ''environment''])]"

text \<open>\<open>characteristics\<close> of the page component.\<close>

definition characteristics :: "(string \<times> string list) list" where
  "characteristics =
    [(''ages'', [''18-'', ''18-24'', ''24-30'', ''30-36'', ''36-42'', ''42-48'', ''48-54'',
                 ''54-60'', ''60-66'', ''66-72'', ''72+'']),
     (''genders'', [''male'', ''female'', ''non-binary'']),
     (''personality'', [''analytical'', ''empathetic'', ''adventurous'',
                 ''conscientious'', ''spontaneous'', ''pragmatic'', ''idealistic'',
                 ''assertive'', ''diplomatic'', ''introspective'']),
     (''interests'', [''technology'', ''music'', ''visual arts'', ''sports'', ''literature'',
                 ''finance'', ''gaming'', ''travel'', ''culinary'', ''environment''])]"

text \<open>\<open>Array.prototype.join\<close> on an array of strings.\<close>

fun join_strings :: "string \<Rightarrow> string list \<Rightarrow> string" where
  "join_strings sep [] = []"
| "join_strings sep [x] = x"
| "join_strings sep (x # y # ys) = x @ sep @ join_strings sep (y # ys)"

text \<open>\<open>fixedOptions.k\<close>, for a category \<open>k\<close> of the taxonomy.\<close>

definition options_of :: "string \<Rightarrow> string list" where
  "options_of k = (case map_of fixedOptions k of Some labels \<Rightarrow> labels | None \<Rightarrow> [])"

section \<open>The API routes\<close>

record http_request =
  req_method :: string
  req_body :: js

text \<open>\<open>res_json\<close> is the value given to \<open>res.json\<close>; it is \<open>None\<close> after \<open>res.end()\<close>.\<close>

record http_response =
  res_status :: nat
  res_headers :: "(string \<times> string) list"
  res_json :: "js option"

text \<open>One call of the chat-completion endpoint, as the routes pass it to \<open>fetch\<close>.\<close>

record completion_request =
  cr_url :: string
  cr_authorization :: string
  cr_model :: string
  cr_role :: string
  cr_prompt :: string
  max_tokens :: nat
  temperature :: rat

text \<open>
  Both routes call \<open>fetch\<close> with the same URL, headers, model and message role; they differ
  in the prompt, in \<open>max_tokens\<close> and in \<open>temperature\<close>.
\<close>

definition completion_call :: "string \<Rightarrow> string \<Rightarrow> nat \<Rightarrow> rat \<Rightarrow> completion_request" where
  "completion_call key prompt budget temp =
     \<lparr>cr_url = ''https://api.openai.com/v1/chat/completions'',
      cr_authorization = ''Bearer '' @ key,
      cr_model = ''gpt-3.5-turbo'',
      cr_role = ''user'',
      cr_prompt = prompt,
      max_tokens = budget,
      temperature = temp\<rparr>"

text \<open>
  What \<open>fetch\<close> does with the call: it rejects, or it resolves to a response with a status
  and a body. The body is \<open>None\<close> when reading it fails.
\<close>

datatype upstream = Rejects | Responds nat "string option"

definition response_ok :: "nat \<Rightarrow> bool" where
  "response_ok st = (200 \<le> st \<and> st \<le> 299)"

definition cors_headers :: "(string \<times> string) list" where
  "cors_headers =
    [(''Access-Control-Allow-Credentials'', ''true''),
     (''Access-Control-Allow-Origin'', ''*''),
     (''Access-Control-Allow-Methods'', ''GET,OPTIONS,PATCH,DELETE,POST,PUT''),
     (''Access-Control-Allow-Headers'',
      ''X-CSRF-Token, X-Requested-With, Accept, Accept-Version, Content-Length, Content-MD5, Content-Type, Date, X-Api-Version'')]"

definition respond :: "nat \<Rightarrow> js \<Rightarrow> http_response" where
  "respond st j = \<lparr>res_status = st, res_headers = cors_headers, res_json = Some j\<rparr>"

definition respond_end :: "nat \<Rightarrow> http_response" where
  "respond_end st = \<lparr>res_status = st, res_headers = cors_headers, res_json = None\<rparr>"

definition error_json :: "string \<Rightarrow> js" where
  "error_json msg = JObj [(''error'', JStr msg)]"

text \<open>\<open>!process.env.OPENAI_API_KEY\<close>: the variable is unset or empty.\<close>

definition key_missing :: "string option \<Rightarrow> bool" where
  "key_missing key = (case key of None \<Rightarrow> True | Some k \<Rightarrow> k = [])"

text \<open>
  \<open>await response.json()\<close> followed by \<open>data.choices[0].message.content\<close>, for a response
  that is ok.
\<close>

definition response_json :: "string option \<Rightarrow> js_error + js" where
  "response_json b =
     (case b of
        None \<Rightarrow> Inl FetchFailed
      | Some text \<Rightarrow> (case JSON_parse text of None \<Rightarrow> Inl SyntaxError | Some d \<Rightarrow> Inr d))"

definition completion_content :: "js \<Rightarrow> js_error + js option" where
  "completion_content data =
     and_then (js_prop (Some data) ''choices'') (\<lambda>choices.
     and_then (js_index0 choices) (\<lambda>choice.
     and_then (js_prop choice ''message'') (\<lambda>msg.
     js_prop msg ''content'')))"

text \<open>
  The statements from \<open>if (!response.ok)\<close> to the read of the completion: the text of the
  first choice, or the exception that leaves the \<open>try\<close> block.
\<close>

definition read_completion :: "upstream \<Rightarrow> js_error + js option" where
  "read_completion up =
     (case up of
        Rejects \<Rightarrow> Inl FetchFailed
      | Responds st b \<Rightarrow>
          if \<not> response_ok st then Inl (ApiError st)
          else and_then (response_json b) completion_content)"


subsection \<open>\<open>generate-report\<close>\<close>

definition report_prompt :: "string \<Rightarrow> string \<Rightarrow> string" where
  \<open>report_prompt traits news =
    ''Provide a detailed analysis of how an audience with these characteristics would likely react to this news:\<newline>'' @
    ''\<newline>'' @
    ''Audience Characteristics: '' @ traits @ ''\<newline>'' @
    ''\<newline>'' @
    ''News Content: "'' @ news @ ''"\<newline>'' @
    ''\<newline>'' @
    ''Please provide:\<newline>'' @
    ''1. Overall emotional reaction (positive/negative/mixed/neutral)\<newline>'' @
    ''2. Key concerns or interests this audience would have\<newline>'' @
    ''3. Likely engagement behavior (share, comment, ignore, etc.)\<newline>'' @
    ''4. Potential misconceptions or areas of confusion\<newline>'' @
    ''5. Recommended messaging adjustments for this audience\<newline>'' @
    ''6. Cultural or demographic-specific considerations\<newline>'' @
    ''\<newline>'' @
    ''Format your response as a comprehensive analysis report.''\<close>

text \<open>
  The argument of \<open>fetch\<close>. Building it evaluates \<open>selectedTraits.join(', ')\<close> and prints
  \<open>newsContent\<close>; either may throw, inside the \<open>try\<close> block and before any call is made.
\<close>

definition report_request ::
  "string \<Rightarrow> js option \<Rightarrow> js option \<Rightarrow> js_error + completion_request" where
  "report_request key newsContent selectedTraits =
     and_then (call_join selectedTraits '', '') (\<lambda>traits.
     and_then (to_string_opt newsContent) (\<lambda>news.
     Inr (completion_call key (report_prompt traits news) 2000 (7 / 10))))"

text \<open>The \<open>try\<close> block after the call, with its \<open>catch\<close>.\<close>

definition report_response :: "upstream \<Rightarrow> http_response" where
  "report_response up =
     (case read_completion up of
        Inl e \<Rightarrow> respond 500 (error_json ''Failed to generate analysis report'')
      | Inr analysisReport \<Rightarrow>
          respond 200
            (JObj (case analysisReport of None \<Rightarrow> [] | Some r \<Rightarrow> [(''report'', r)])))"

text \<open>
  The route. Its arguments are the environment variable, the behaviour of \<open>fetch\<close> and the
  request; its result is the response, with the calls made to the completion endpoint, or the
  exception the handler does not catch.
\<close>

definition generate_report_handler ::
  "string option \<Rightarrow> (completion_request \<Rightarrow> upstream) \<Rightarrow> http_request
     \<Rightarrow> js_error + (http_response \<times> completion_request list)" where
  "generate_report_handler key fetch req =
     (if req_method req = ''OPTIONS'' then Inr (respond_end 200, [])
      else if req_method req \<noteq> ''POST'' then
        Inr (respond 405 (error_json ''Method not allowed''), [])
      else
        and_then (js_prop (Some (req_body req)) ''newsContent'') (\<lambda>newsContent.
        and_then (js_prop (Some (req_body req)) ''selectedTraits'') (\<lambda>selectedTraits.
          if \<not> truthy newsContent \<or> \<not> truthy selectedTraits then
            Inr (respond 400 (error_json ''News content and selected traits are required''), [])
          else if key_missing key then
            Inr (respond 500 (error_json ''OpenAI API key not configured''), [])
          else
            (case report_request (case key of Some k \<Rightarrow> k | None \<Rightarrow> ''undefined'') newsContent selectedTraits of
               Inl e \<Rightarrow> Inr (respond 500 (error_json ''Failed to generate analysis report''), [])
             | Inr q \<Rightarrow> Inr (report_response (fetch q), [q])))))"

subsection \<open>\<open>auto-select\<close>\<close>

definition select_prompt :: "string \<Rightarrow> string" where
  \<open>select_prompt news =
    ''Analyze this news content and select the most relevant audience characteristics from the following fixed options. Return your selections in JSON format:\<newline>'' @
    ''\<newline>'' @
    ''Available options:\<newline>'' @
    ''- Ages: ['' @ join_strings '', '' (options_of ''ages'') @ '']\<newline>'' @
    ''- Genders: ['' @ join_strings '', '' (options_of ''genders'') @ '']\<newline>'' @
    ''- Personality Traits: ['' @
       join_strings '', '' (options_of ''personality_traits'') @ '']\<newline>'' @
    ''- Interests: ['' @ join_strings '', '' (options_of ''interests'') @ '']\<newline>'' @
    ''\<newline>'' @
    ''Return format:\<newline>'' @
    ''{\<newline>'' @
    ''  "ages": ["24-30", "30-36"],\<newline>'' @
    ''  "genders": ["male", "female"],\<newline>'' @
    ''  "personality_traits": ["analytical", "pragmatic"],\<newline>'' @
    ''  "interests": ["technology", "finance"]\<newline>'' @
    ''}\<newline>'' @
    ''\<newline>'' @
    ''News content to analyze: "'' @ news @ ''"''\<close>

definition select_request :: "string \<Rightarrow> js option \<Rightarrow> js_error + completion_request" where
  "select_request key newsContent =
     and_then (to_string_opt newsContent) (\<lambda>news.
     Inr (completion_call key (select_prompt news) 500 (3 / 10)))"

text \<open>The suggestion of the inner \<open>catch\<close>.\<close>

definition default_selections :: js where
  "default_selections =
     JObj [(''ages'', JArr [JStr ''24-30'', JStr ''30-36'']),
           (''genders'', JArr [JStr ''male'', JStr ''female'']),
           (''personality_traits'', JArr [JStr ''analytical'', JStr ''pragmatic'']),
           (''interests'', JArr [JStr ''technology''])]"

text \<open>
  The inner \<open>try\<close>: \<open>JSON.parse(analysisText)\<close> prints its argument and parses the text; the
  value goes to the caller as it is parsed, and the \<open>catch\<close> answers with the default.
\<close>

definition parse_selections :: "js option \<Rightarrow> http_response" where
  "parse_selections analysisText =
     (case to_string_opt analysisText of
        Inl e \<Rightarrow> respond 200 default_selections
      | Inr text \<Rightarrow>
          (case JSON_parse text of
             None \<Rightarrow> respond 200 default_selections
           | Some selections \<Rightarrow> respond 200 selections))"

definition select_response :: "upstream \<Rightarrow> http_response" where
  "select_response up =
     (case read_completion up of
        Inl e \<Rightarrow> respond 500 (error_json ''Failed to analyze content'')
      | Inr analysisText \<Rightarrow> parse_selections analysisText)"

definition auto_select_handler ::
  "string option \<Rightarrow> (completion_request \<Rightarrow> upstream) \<Rightarrow> http_request
     \<Rightarrow> js_error + (http_response \<times> completion_request list)" where
  "auto_select_handler key fetch req =
     (if req_method req = ''OPTIONS'' then Inr (respond_end 200, [])
      else if req_method req \<noteq> ''POST'' then
        Inr (respond 405 (error_json ''Method not allowed''), [])
      else
        and_then (js_prop (Some (req_body req)) ''newsContent'') (\<lambda>newsContent.
          if \<not> truthy newsContent then
            Inr (respond 400 (error_json ''News content is required''), [])
          else if key_missing key then
            Inr (respond 500 (error_json ''OpenAI API key not configured''), [])
          else
            (case select_request (case key of Some k \<Rightarrow> k | None \<Rightarrow> ''undefined'') newsContent of
               Inl e \<Rightarrow> Inr (respond 500 (error_json ''Failed to analyze content''), [])
             | Inr q \<Rightarrow> Inr (select_response (fetch q), [q]))))"

section \<open>The page component\<close>

record message =
  sender :: string
  content :: string

text \<open>The eight \<open>useState\<close> cells of \<open>Home\<close>.\<close>

record ui_state =
  currentQuery :: string
  selectedCharacteristics :: js_set
  showChat :: bool
  showCharacteristics :: bool
  showReport :: bool
  messages :: "message list"
  reportContent :: "js option"
  isLoading :: bool








definition toggleCharacteristic :: "string \<Rightarrow> ui_state \<Rightarrow> ui_state" where
  "toggleCharacteristic v st =
     (let newSelected = selectedCharacteristics st in
      if set_has newSelected (JStr v)
      then st\<lparr>selectedCharacteristics := set_delete newSelected (JStr v)\<rparr>
      else st\<lparr>selectedCharacteristics := set_add newSelected (JStr v)\<rparr>)"









section \<open>Searching a text\<close>




section \<open>The suggestion as the specification reads it\<close>



section \<open>A session for the examples\<close>

text \<open>A page showing the characteristics panel, with two labels selected.\<close>

definition session0 :: ui_state where
  "session0 =
     \<lparr>currentQuery = ''Company X raises prices'',
      selectedCharacteristics = [JStr ''technology'', JStr ''male''],
      showChat = True, showCharacteristics = True, showReport = False, messages = [],
      reportContent = Some (JStr []), isLoading = False\<rparr>"

text \<open>The requests the page sends from that session, and the calls the routes build for them.\<close>

definition select_req0 :: http_request where
  "select_req0 =
     \<lparr>req_method = ''POST'',
      req_body = JObj [(''newsContent'', JStr ''Company X raises prices'')]\<rparr>"

definition report_req0 :: http_request where
  "report_req0 =
     \<lparr>req_method = ''POST'',
      req_body = JObj [(''newsContent'', JStr ''Company X raises prices''),
                       (''selectedTraits'', JArr [JStr ''technology'', JStr ''male''])]\<rparr>"

definition select_call0 :: completion_request where
  "select_call0 =
     completion_call ''sk-test'' (select_prompt ''Company X raises prices'') 500 (3 / 10)"

definition report_call0 :: completion_request where
  "report_call0 =
     completion_call ''sk-test''
       (report_prompt ''technology, male'' ''Company X raises prices'') 2000 (7 / 10)"

text \<open>A \<open>fetch\<close> with the same outcome for every call.\<close>

definition always :: "upstream \<Rightarrow> completion_request \<Rightarrow> upstream" where
  "always up q = up"







section \<open>Evaluating the examples\<close>


lemmas guard_defs = and_then_def key_missing_def to_string_opt_def call_join_def








lemma select_request0:
  "select_request ''sk-test'' (Some (JStr ''Company X raises prices'')) = Inr select_call0"
  by (simp add: select_request_def select_call0_def guard_defs)

lemma report_request0:
  "report_request ''sk-test'' (Some (JStr ''Company X raises prices''))
     (Some (JArr [JStr ''technology'', JStr ''male''])) = Inr report_call0"
  by (simp add: report_request_def report_call0_def guard_defs)

lemma select_handler0:
  "auto_select_handler (Some ''sk-test'') f select_req0
     = Inr (select_response (f select_call0), [select_call0])"
  by (simp add: auto_select_handler_def select_req0_def select_request0 and_then_def
      key_missing_def)

lemma report_handler0:
  "generate_report_handler (Some ''sk-test'') f report_req0
     = Inr (report_response (f report_call0), [report_call0])"
  by (simp add: generate_report_handler_def report_req0_def report_request0 and_then_def
      key_missing_def)

lemma select_rejected0:
  "auto_select_handler (Some ''sk-test'') (always Rejects) select_req0 =
     Inr (respond 500 (error_json ''Failed to analyze content''), [select_call0])"
  by (simp add: select_handler0 select_response_def read_completion_def always_def)

lemma report_rejected0:
  "generate_report_handler (Some ''sk-test'') (always Rejects) report_req0 =
     Inr (respond 500 (error_json ''Failed to generate analysis report''), [report_call0])"
  by (simp add: report_handler0 report_response_def read_completion_def always_def)

section \<open>Properties of the routes\<close>

lemma select_calls:
  "auto_select_handler key f req = Inr (res, calls) \<Longrightarrow> c \<in> set calls \<Longrightarrow>
     temperature c = 3 / 10 \<and> max_tokens c = 500"
  by (auto simp: auto_select_handler_def and_then_def select_request_def completion_call_def
           split: if_splits sum.splits)

lemma report_calls:
  "generate_report_handler key f req = Inr (res, calls) \<Longrightarrow> c \<in> set calls \<Longrightarrow>
     temperature c = 7 / 10 \<and> max_tokens c = 2000"
  by (auto simp: generate_report_handler_def and_then_def report_request_def completion_call_def
           split: if_splits sum.splits)

text \<open>
  C8. Every call the auto-select route makes to the completion endpoint has a strictly lower
  temperature and a strictly smaller \<open>max_tokens\<close> than every call the generate-report
  route makes, whatever the requests, the key and the behaviour of the endpoint.
\<close>

theorem selector_budget_below_report:
  assumes "auto_select_handler key f req = Inr (res, calls)"
    and "generate_report_handler key' f' req' = Inr (res', calls')"
    and "c \<in> set calls" and "c' \<in> set calls'"
  shows "temperature c < temperature c' \<and> max_tokens c < max_tokens c'"
  using select_calls [OF assms(1,3)] report_calls [OF assms(2,4)] by simp

theorem selector_budget_below_report_witness:
  "auto_select_handler (Some ''sk-test'') (always Rejects) select_req0 =
     Inr (respond 500 (error_json ''Failed to analyze content''), [select_call0]) \<and>
   generate_report_handler (Some ''sk-test'') (always Rejects) report_req0 =
     Inr (respond 500 (error_json ''Failed to generate analysis report''), [report_call0]) \<and>
   temperature select_call0 = 3 / 10 \<and> temperature report_call0 = 7 / 10 \<and>
   max_tokens select_call0 = 500 \<and> max_tokens report_call0 = 2000 \<and>
   temperature select_call0 < temperature report_call0 \<and>
   max_tokens select_call0 < max_tokens report_call0"
  using selector_budget_below_report [OF select_rejected0 report_rejected0,
      of select_call0 report_call0]
    select_rejected0 report_rejected0
  by (simp add: select_call0_def report_call0_def completion_call_def)






section \<open>Properties of the selector pipeline\<close>























section \<open>Properties of the report pipeline\<close>









section \<open>Properties of the selection\<close>

lemma same_value_zero_JStr: "same_value_zero x (JStr v) \<longleftrightarrow> x = JStr v"
  by (cases x) auto

lemma set_has_JStr: "set_has s (JStr v) \<longleftrightarrow> JStr v \<in> set s"
  by (auto simp: set_has_def list_ex_iff same_value_zero_JStr)

lemma set_delete_JStr: "set (set_delete s (JStr v)) = set s - {JStr v}"
  by (auto simp: set_delete_def same_value_zero_JStr)

lemma set_add_JStr: "set (set_add s (JStr v)) = insert (JStr v) (set s)"
  by (auto simp: set_add_def set_has_JStr)

lemma toggle_selected:
  "set (selectedCharacteristics (toggleCharacteristic v st)) =
     (if JStr v \<in> set (selectedCharacteristics st)
      then set (selectedCharacteristics st) - {JStr v}
      else insert (JStr v) (set (selectedCharacteristics st)))"
  by (simp add: toggleCharacteristic_def Let_def set_has_JStr set_delete_JStr set_add_JStr)

text \<open>
  C10. Toggling a label twice gives back the original set of selected values; toggling it
  once flips the membership of that label and leaves the membership of every other value as
  it was. The set is compared by its members: a label that was selected comes back as the
  latest member, so the order of iteration may differ.
\<close>

theorem toggleCharacteristic_involution:
  "set (selectedCharacteristics (toggleCharacteristic v (toggleCharacteristic v st)))
     = set (selectedCharacteristics st)
   \<and> (set_has (selectedCharacteristics (toggleCharacteristic v st)) (JStr v)
        \<longleftrightarrow> \<not> set_has (selectedCharacteristics st) (JStr v))
   \<and> (\<forall>x. x \<noteq> JStr v \<longrightarrow>
        (x \<in> set (selectedCharacteristics (toggleCharacteristic v st))
          \<longleftrightarrow> x \<in> set (selectedCharacteristics st)))"
  by (auto simp: toggle_selected set_has_JStr)

theorem toggleCharacteristic_involution_witness:
  "JStr ''technology'' \<noteq> JStr ''male'' \<and>
   selectedCharacteristics (toggleCharacteristic ''male'' session0) = [JStr ''technology''] \<and>
   selectedCharacteristics (toggleCharacteristic ''male'' (toggleCharacteristic ''male'' session0))
     = [JStr ''technology'', JStr ''male''] \<and>
   (JStr ''technology'' \<in> set (selectedCharacteristics (toggleCharacteristic ''male'' session0))
     \<longleftrightarrow> JStr ''technology'' \<in> set (selectedCharacteristics session0))"
  using toggleCharacteristic_involution [of "''male''" session0]
  by (simp add: session0_def toggleCharacteristic_def set_has_def set_delete_def set_add_def)

section \<open>Properties of the taxonomy\<close>

text \<open>
  C6. The four label lists of \<open>fixedOptions\<close> in the auto-select route equal, in order, the
  four label lists of \<open>characteristics\<close> in the page component. The categories come in the
  same order; the third is named \<open>personality_traits\<close> in the route and \<open>personality\<close> in
  the page.
\<close>

theorem taxonomy_identical:
  "map snd fixedOptions = map snd characteristics \<and>
   map fst fixedOptions = [''ages'', ''genders'', ''personality_traits'', ''interests''] \<and>
   map fst characteristics = [''ages'', ''genders'', ''personality'', ''interests'']"
  by (simp add: fixedOptions_def characteristics_def)

end
